theory Spec2Isabelle
  imports Main "HOL-Library.Sublist" "HOL-Library.Char_ord"
begin

section \<open>Errors and configuration values\<close>

text \<open>
  Go's \<open>error\<close> interface: \<open>errors.New\<close> builds a plain error, \<open>errors.Fatalf\<close> a fatal
  one. \<open>Error e\<close> is the message (\<open>err.Error()\<close>, which is what \<open>%v\<close> prints).
  A Go value of type \<open>(T, error)\<close> is a pair whose second component is \<open>None\<close> for
  \<open>nil\<close>.
\<close>

datatype error = New string | Fatalf string



text \<open>
  The backend configuration structs. Their declarations live in the backend packages;
  the records hold the fields that this package reads or writes, the other backends'
  configurations are carried as an opaque body.
\<close>

record s3_Config =
  KeyID :: string
  Secret :: string
  Region :: string

record gs_Config =
  ProjectID :: string

record azure_Config =
  AccountName :: string
  AccountKey :: string

record b2_Config =
  AccountID :: string
  Key :: string

text \<open>A value of type \<open>interface{}\<close> holding one of the configuration structs.\<close>

datatype config =
    CfgLocal string
  | CfgSftp string
  | CfgS3 s3_Config
  | CfgGs gs_Config
  | CfgAzure azure_Config
  | CfgSwift string
  | CfgB2 b2_Config
  | CfgRest string
  | CfgRclone string

section \<open>location.go\<close>

record location =
  Scheme :: string
  Config :: "config option"

definition zero_location :: location where
  "zero_location = \<lparr>Scheme = [], Config = None\<rparr>"

record parser =
  scheme :: string
  parse :: "string \<Rightarrow> config option \<times> error option"
  stripPassword :: "string \<Rightarrow> string"

text \<open>
  The functions of the backend packages that the parser table refers to. They are
  parameters of the model.
\<close>

record backend_parsers =
  b2_ParseConfig :: "string \<Rightarrow> config option \<times> error option"
  local_ParseConfig :: "string \<Rightarrow> config option \<times> error option"
  sftp_ParseConfig :: "string \<Rightarrow> config option \<times> error option"
  s3_ParseConfig :: "string \<Rightarrow> config option \<times> error option"
  gs_ParseConfig :: "string \<Rightarrow> config option \<times> error option"
  azure_ParseConfig :: "string \<Rightarrow> config option \<times> error option"
  swift_ParseConfig :: "string \<Rightarrow> config option \<times> error option"
  rest_ParseConfig :: "string \<Rightarrow> config option \<times> error option"
  rclone_ParseConfig :: "string \<Rightarrow> config option \<times> error option"
  rest_StripPassword :: "string \<Rightarrow> string"

definition noPassword :: "string \<Rightarrow> string" where
  "noPassword s = s"

definition parsers :: "backend_parsers \<Rightarrow> parser list" where
  "parsers P =
    [\<lparr>scheme = ''b2'', parse = b2_ParseConfig P, stripPassword = noPassword\<rparr>,
     \<lparr>scheme = ''local'', parse = local_ParseConfig P, stripPassword = noPassword\<rparr>,
     \<lparr>scheme = ''sftp'', parse = sftp_ParseConfig P, stripPassword = noPassword\<rparr>,
     \<lparr>scheme = ''s3'', parse = s3_ParseConfig P, stripPassword = noPassword\<rparr>,
     \<lparr>scheme = ''gs'', parse = gs_ParseConfig P, stripPassword = noPassword\<rparr>,
     \<lparr>scheme = ''azure'', parse = azure_ParseConfig P, stripPassword = noPassword\<rparr>,
     \<lparr>scheme = ''swift'', parse = swift_ParseConfig P, stripPassword = noPassword\<rparr>,
     \<lparr>scheme = ''rest'', parse = rest_ParseConfig P, stripPassword = rest_StripPassword P\<rparr>,
     \<lparr>scheme = ''rclone'', parse = rclone_ParseConfig P, stripPassword = noPassword\<rparr>]"

text \<open>\<open>strings.HasPrefix\<close> and the backslash byte.\<close>

definition HasPrefix :: "string \<Rightarrow> string \<Rightarrow> bool" where
  "HasPrefix s p = (take (length p) s = p)"

definition backslash :: char where
  "backslash = CHR 0x5C"

definition isPath :: "string \<Rightarrow> bool" where
  "isPath s =
    (if HasPrefix s ''../'' \<or> HasPrefix s (''..'' @ [backslash]) then True
     else if HasPrefix s ''/'' \<or> HasPrefix s [backslash] then True
     else if length s < 3 then False
     else
       let drive = s ! 0 in
       if \<not> (CHR ''a'' \<le> drive \<and> drive \<le> CHR ''z'') \<and> \<not> (CHR ''A'' \<le> drive \<and> drive \<le> CHR ''Z'')
       then False
       else if s ! 1 \<noteq> CHR '':'' then False
       else if s ! 2 \<noteq> backslash \<and> s ! 2 \<noteq> CHR ''/'' then False
       else True)"

text \<open>
  \<open>strings.SplitN(s, sep, 2)\<close> for a one-byte separator: the text before the first
  separator and the text after it, or \<open>s\<close> alone when it has no separator. The result
  is never empty, so \<open>data[0]\<close> in \<open>extractScheme\<close> cannot be out of range.
\<close>

definition SplitN2 :: "string \<Rightarrow> char \<Rightarrow> string list" where
  "SplitN2 s sep =
    (if sep \<in> set s
     then [takeWhile (\<lambda>c. c \<noteq> sep) s, tl (dropWhile (\<lambda>c. c \<noteq> sep) s)]
     else [s])"

definition extractScheme :: "string \<Rightarrow> string" where
  "extractScheme s = hd (SplitN2 s (CHR '':''))"

text \<open>
  The loop of \<open>parseLocation\<close> over the table: \<open>None\<close> when it ends without a match
  (the code after the loop runs), otherwise the value returned from inside the loop.
\<close>

fun parseLocation_loop ::
  "parser list \<Rightarrow> location \<Rightarrow> string \<Rightarrow> string \<Rightarrow> (location \<times> error option) option" where
  "parseLocation_loop [] u sch s = None"
| "parseLocation_loop (p # ps) u sch s =
    (if scheme p \<noteq> sch then parseLocation_loop ps u sch s
     else
       (case parse p s of
          (cfg, Some e) \<Rightarrow> Some (zero_location, Some e)
        | (cfg, None) \<Rightarrow> Some (u\<lparr>Config := cfg\<rparr>, None)))"

definition ambiguous_msg :: string where
  "ambiguous_msg =
    ''invalid backend'' @ [CHR 0x0A] @
    ''If the repo is in a local directory, you need to add a `local:` prefix''"

definition ContainsRune :: "string \<Rightarrow> char \<Rightarrow> bool" where
  "ContainsRune s r = (r \<in> set s)"

definition parseLocation :: "backend_parsers \<Rightarrow> string \<Rightarrow> location \<times> error option" where
  "parseLocation P s =
    (let sch = extractScheme s;
         u = zero_location\<lparr>Scheme := sch\<rparr>
     in case parseLocation_loop (parsers P) u sch s of
          Some r \<Rightarrow> r
        | None \<Rightarrow>
            if \<not> isPath s \<and> ContainsRune s (CHR '':'') then (zero_location, Some (New ambiguous_msg))
            else
              let u = u\<lparr>Scheme := ''local''\<rparr> in
              (case local_ParseConfig P (''local:'' @ s) of
                 (cfg, Some e) \<Rightarrow> (zero_location, Some e)
               | (cfg, None) \<Rightarrow> (u\<lparr>Config := cfg\<rparr>, None)))"



section \<open>The backend factory: \<open>parseConfig\<close> and \<open>Open\<close>\<close>

text \<open>
  A call either returns or panics; a failed type assertion \<open>x.(T)\<close> panics.
\<close>

datatype 'a outcome = Panic | Return 'a

text \<open>The process environment; \<open>os.Getenv\<close> gives the empty string for an unset variable.\<close>

type_synonym environ = "string \<rightharpoonup> string"

definition Getenv :: "environ \<Rightarrow> string \<Rightarrow> string" where
  "Getenv env k = (case env k of None \<Rightarrow> [] | Some v \<Rightarrow> v)"

text \<open>
  \<open>options.Options\<close> with its methods \<open>Extract\<close> and \<open>Apply\<close>, and
  \<open>swift.ApplyEnvironment\<close>, are declared outside this package and are parameters.
  \<open>Apply(ns, &cfg)\<close> writes through a pointer to a struct of a known type, so it is one
  function for each configuration type, returning the struct as it left it and the error.
  \<open>swift.ApplyEnvironment\<close> reads the process environment, which it gets as an argument.
\<close>

type_synonym options = "(string \<times> string) list"

record config_fns =
  Extract :: "options \<Rightarrow> string \<Rightarrow> options"
  Apply_local :: "options \<Rightarrow> string \<Rightarrow> string \<Rightarrow> string \<times> error option"
  Apply_sftp :: "options \<Rightarrow> string \<Rightarrow> string \<Rightarrow> string \<times> error option"
  Apply_s3 :: "options \<Rightarrow> string \<Rightarrow> s3_Config \<Rightarrow> s3_Config \<times> error option"
  Apply_gs :: "options \<Rightarrow> string \<Rightarrow> gs_Config \<Rightarrow> gs_Config \<times> error option"
  Apply_azure :: "options \<Rightarrow> string \<Rightarrow> azure_Config \<Rightarrow> azure_Config \<times> error option"
  Apply_swift :: "options \<Rightarrow> string \<Rightarrow> string \<Rightarrow> string \<times> error option"
  Apply_b2 :: "options \<Rightarrow> string \<Rightarrow> b2_Config \<Rightarrow> b2_Config \<times> error option"
  Apply_rest :: "options \<Rightarrow> string \<Rightarrow> string \<Rightarrow> string \<times> error option"
  Apply_rclone :: "options \<Rightarrow> string \<Rightarrow> string \<Rightarrow> string \<times> error option"
  swift_ApplyEnvironment :: "environ \<Rightarrow> string \<Rightarrow> string \<Rightarrow> string \<times> error option"

text \<open>
  The \<open>switch loc.Scheme\<close> statement, which \<open>parseConfig\<close> and \<open>Open\<close> have with the
  same cases in the same order: the arm that a scheme selects.
\<close>

datatype arm =
  ArmLocal | ArmSftp | ArmS3 | ArmGs | ArmAzure | ArmSwift | ArmB2 | ArmRest | ArmRclone
  | ArmDefault

definition switch_Scheme :: "string \<Rightarrow> arm" where
  "switch_Scheme sch =
    (if sch = ''local'' then ArmLocal
     else if sch = ''sftp'' then ArmSftp
     else if sch = ''s3'' then ArmS3
     else if sch = ''gs'' then ArmGs
     else if sch = ''azure'' then ArmAzure
     else if sch = ''swift'' then ArmSwift
     else if sch = ''b2'' then ArmB2
     else if sch = ''rest'' then ArmRest
     else if sch = ''rclone'' then ArmRclone
     else ArmDefault)"

text \<open>
  \<open>if err := opts.Apply(loc.Scheme, &cfg); err != nil { return nil, err }; return cfg, nil\<close>,
  the end of every arm of \<open>parseConfig\<close>; \<open>box\<close> stores the struct in the interface value.
\<close>

definition return_applied ::
  "('c \<Rightarrow> config) \<Rightarrow> 'c \<times> error option \<Rightarrow> (config option \<times> error option) outcome" where
  "return_applied box r =
    (case r of
       (cfg, Some err) \<Rightarrow> Return (None, Some err)
     | (cfg, None) \<Rightarrow> Return (Some (box cfg), None))"

text \<open>
  The format verb \<open>%q\<close> (a quoted string) is a parameter \<open>q\<close>. Calls of \<open>debug.Log\<close>
  have no effect on what is returned and are left out.
\<close>

definition parseConfig ::
  "config_fns \<Rightarrow> (string \<Rightarrow> string) \<Rightarrow> environ \<Rightarrow> location \<Rightarrow> options
    \<Rightarrow> (config option \<times> error option) outcome" where
  "parseConfig F q env loc opts0 =
    (let opts = Extract F opts0 (Scheme loc) in
     case switch_Scheme (Scheme loc) of
       ArmLocal \<Rightarrow>
         (case Config loc of
            Some (CfgLocal cfg) \<Rightarrow> return_applied CfgLocal (Apply_local F opts (Scheme loc) cfg)
          | _ \<Rightarrow> Panic)
     | ArmSftp \<Rightarrow>
         (case Config loc of
            Some (CfgSftp cfg) \<Rightarrow> return_applied CfgSftp (Apply_sftp F opts (Scheme loc) cfg)
          | _ \<Rightarrow> Panic)
     | ArmS3 \<Rightarrow>
         (case Config loc of
            Some (CfgS3 cfg0) \<Rightarrow>
              let cfg = (if KeyID cfg0 = [] then cfg0\<lparr>KeyID := Getenv env ''AWS_ACCESS_KEY_ID''\<rparr>
                         else cfg0);
                  cfg = (if Secret cfg = [] then cfg\<lparr>Secret := Getenv env ''AWS_SECRET_ACCESS_KEY''\<rparr>
                         else cfg)
              in
                if KeyID cfg = [] \<and> Secret cfg \<noteq> [] then
                  Return (None, Some (Fatalf
                    ''unable to open S3 backend: Key ID ($AWS_ACCESS_KEY_ID) is empty''))
                else if KeyID cfg \<noteq> [] \<and> Secret cfg = [] then
                  Return (None, Some (Fatalf
                    ''unable to open S3 backend: Secret ($AWS_SECRET_ACCESS_KEY) is empty''))
                else
                  let cfg = (if Region cfg = [] then cfg\<lparr>Region := Getenv env ''AWS_DEFAULT_REGION''\<rparr>
                             else cfg)
                  in return_applied CfgS3 (Apply_s3 F opts (Scheme loc) cfg)
          | _ \<Rightarrow> Panic)
     | ArmGs \<Rightarrow>
         (case Config loc of
            Some (CfgGs cfg0) \<Rightarrow>
              let cfg = (if ProjectID cfg0 = [] then cfg0\<lparr>ProjectID := Getenv env ''GOOGLE_PROJECT_ID''\<rparr>
                         else cfg0)
              in return_applied CfgGs (Apply_gs F opts (Scheme loc) cfg)
          | _ \<Rightarrow> Panic)
     | ArmAzure \<Rightarrow>
         (case Config loc of
            Some (CfgAzure cfg0) \<Rightarrow>
              let cfg = (if AccountName cfg0 = []
                         then cfg0\<lparr>AccountName := Getenv env ''AZURE_ACCOUNT_NAME''\<rparr> else cfg0);
                  cfg = (if AccountKey cfg = []
                         then cfg\<lparr>AccountKey := Getenv env ''AZURE_ACCOUNT_KEY''\<rparr> else cfg)
              in return_applied CfgAzure (Apply_azure F opts (Scheme loc) cfg)
          | _ \<Rightarrow> Panic)
     | ArmSwift \<Rightarrow>
         (case Config loc of
            Some (CfgSwift cfg0) \<Rightarrow>
              (case swift_ApplyEnvironment F env [] cfg0 of
                 (cfg, Some err) \<Rightarrow> Return (None, Some err)
               | (cfg, None) \<Rightarrow> return_applied CfgSwift (Apply_swift F opts (Scheme loc) cfg))
          | _ \<Rightarrow> Panic)
     | ArmB2 \<Rightarrow>
         (case Config loc of
            Some (CfgB2 cfg0) \<Rightarrow>
              let cfg = (if AccountID cfg0 = [] then cfg0\<lparr>AccountID := Getenv env ''B2_ACCOUNT_ID''\<rparr>
                         else cfg0)
              in
                if AccountID cfg = [] then
                  Return (None, Some (Fatalf
                    ''unable to open B2 backend: Account ID ($B2_ACCOUNT_ID) is empty''))
                else
                  let cfg = (if Key cfg = [] then cfg\<lparr>Key := Getenv env ''B2_ACCOUNT_KEY''\<rparr> else cfg)
                  in
                    if Key cfg = [] then
                      Return (None, Some (Fatalf
                        ''unable to open B2 backend: Key ($B2_ACCOUNT_KEY) is empty''))
                    else return_applied CfgB2 (Apply_b2 F opts (Scheme loc) cfg)
          | _ \<Rightarrow> Panic)
     | ArmRest \<Rightarrow>
         (case Config loc of
            Some (CfgRest cfg) \<Rightarrow> return_applied CfgRest (Apply_rest F opts (Scheme loc) cfg)
          | _ \<Rightarrow> Panic)
     | ArmRclone \<Rightarrow>
         (case Config loc of
            Some (CfgRclone cfg) \<Rightarrow> return_applied CfgRclone (Apply_rclone F opts (Scheme loc) cfg)
          | _ \<Rightarrow> Panic)
     | ArmDefault \<Rightarrow> Return (None, Some (Fatalf (''invalid backend: '' @ q (Scheme loc)))))"

text \<open>
  The limiter package: \<open>limiter.NewStaticLimiter(limits)\<close> builds a limiter,
  \<open>lim.Transport(rt)\<close> wraps a round tripper and \<open>limiter.LimitBackend(be, lim)\<close> wraps
  a backend. They are kept as constructors, so a value shows how it was built. A backend
  handle made by a backend package is \<open>Handle name w\<close>, any value the package chooses.
\<close>

record Limits =
  UploadKb :: int
  DownloadKb :: int

datatype limiter = NewStaticLimiter Limits

datatype transport = NilRoundTripper | RoundTripper string | LimiterTransport limiter transport

datatype opened_with = WithoutTransport | WithTransport transport | WithLimiter limiter

datatype backend = NilBackend | Handle string opened_with | LimitBackend backend limiter





section \<open>Notions of the specification\<close>

text \<open>The nine scheme names that the specification lists as recognised.\<close>

definition registered_schemes :: "string list" where
  "registered_schemes =
    [''b2'', ''local'', ''sftp'', ''s3'', ''gs'', ''azure'', ''swift'', ''rest'', ''rclone'']"

text \<open>An ASCII letter, as the specification's drive-letter pattern has it.\<close>

definition ascii_letter :: "char \<Rightarrow> bool" where
  "ascii_letter c =
    (c \<in> set ''abcdefghijklmnopqrstuvwxyz'' \<or> c \<in> set ''ABCDEFGHIJKLMNOPQRSTUVWXYZ'')"

text \<open>
  Credential fallback: a field that is empty after parsing takes the value of its
  environment variable, any other field keeps its value.
\<close>

definition fallback :: "string \<Rightarrow> environ \<Rightarrow> string \<Rightarrow> string" where
  "fallback v env name = (if v = [] then Getenv env name else v)"


section \<open>Example collaborators\<close>

text \<open>
  The theorems below hold for all collaborators. These instances let the code run on
  concrete inputs: every parser asks for its own prefix and keeps the text after it,
  options are applied without effect, and an opened handle records the package that
  made it and the transport or limiter it was given.
\<close>

definition example_parse ::
  "string \<Rightarrow> (string \<Rightarrow> config) \<Rightarrow> string \<Rightarrow> config option \<times> error option" where
  "example_parse p box s =
    (if HasPrefix s p then (Some (box (drop (length p) s)), None)
     else (None, Some (New ''invalid format'')))"

definition example_parsers :: backend_parsers where
  "example_parsers =
    \<lparr>b2_ParseConfig = example_parse ''b2:'' (\<lambda>b. CfgB2 \<lparr>AccountID = [], Key = []\<rparr>),
     local_ParseConfig = example_parse ''local:'' CfgLocal,
     sftp_ParseConfig = example_parse ''sftp:'' CfgSftp,
     s3_ParseConfig = example_parse ''s3:'' (\<lambda>b. CfgS3 \<lparr>KeyID = [], Secret = [], Region = []\<rparr>),
     gs_ParseConfig = example_parse ''gs:'' (\<lambda>b. CfgGs \<lparr>ProjectID = []\<rparr>),
     azure_ParseConfig =
       example_parse ''azure:'' (\<lambda>b. CfgAzure \<lparr>AccountName = [], AccountKey = []\<rparr>),
     swift_ParseConfig = example_parse ''swift:'' CfgSwift,
     rest_ParseConfig = example_parse ''rest:'' CfgRest,
     rclone_ParseConfig = example_parse ''rclone:'' CfgRclone,
     rest_StripPassword = (\<lambda>s. s)\<rparr>"

definition example_config_fns :: config_fns where
  "example_config_fns =
    \<lparr>Extract = (\<lambda>opts ns. filter (\<lambda>kv. HasPrefix (fst kv) (ns @ ''.'')) opts),
     Apply_local = (\<lambda>opts ns c. (c, None)),
     Apply_sftp = (\<lambda>opts ns c. (c, None)),
     Apply_s3 = (\<lambda>opts ns c. (c, None)),
     Apply_gs = (\<lambda>opts ns c. (c, None)),
     Apply_azure = (\<lambda>opts ns c. (c, None)),
     Apply_swift = (\<lambda>opts ns c. (c, None)),
     Apply_b2 = (\<lambda>opts ns c. (c, None)),
     Apply_rest = (\<lambda>opts ns c. (c, None)),
     Apply_rclone = (\<lambda>opts ns c. (c, None)),
     swift_ApplyEnvironment = (\<lambda>env prefix c. (c, None))\<rparr>"



definition example_q :: "string \<Rightarrow> string" where
  "example_q s = [CHR 0x22] @ s @ [CHR 0x22]"



section \<open>The parser table and its loop\<close>

lemma schemes_of_parsers: "map scheme (parsers P) = registered_schemes"
  by (simp add: parsers_def registered_schemes_def)

lemma set_schemes: "scheme ` set (parsers P) = set registered_schemes"
  using schemes_of_parsers [of P] by (metis set_map)

lemma loop_None: "(parseLocation_loop ps u sch s = None) = (sch \<notin> scheme ` set ps)"
  by (induction ps) (auto split: prod.splits option.splits)

lemma loop_error: "parseLocation_loop ps u sch s = Some (l, Some e) \<Longrightarrow> l = zero_location"
  by (induction ps) (auto split: prod.splits option.splits if_splits)

lemma loop_ok:
  "parseLocation_loop ps u sch s = Some (l, None) \<Longrightarrow>
     Scheme l = Scheme u \<and> sch \<in> scheme ` set ps"
  by (induction ps) (auto split: prod.splits option.splits if_splits)

lemma switch_registered: "sch \<in> set registered_schemes \<Longrightarrow> switch_Scheme sch \<noteq> ArmDefault"
  by (auto simp: registered_schemes_def switch_Scheme_def)

lemma parseLocation_ok_scheme:
  assumes "parseLocation P s = (loc, None)"
  shows "Scheme loc \<in> set registered_schemes"
proof (cases "parseLocation_loop (parsers P) (zero_location\<lparr>Scheme := extractScheme s\<rparr>)
                (extractScheme s) s")
  case None
  with assms have "Scheme loc = ''local''"
    by (auto simp: parseLocation_def Let_def split: if_splits prod.splits option.splits)
  then show ?thesis by (simp add: registered_schemes_def)
next
  case (Some r)
  with assms have r: "r = (loc, None)" by (simp add: parseLocation_def Let_def)
  from loop_ok [OF Some [unfolded r]]
  have "Scheme loc = extractScheme s" "extractScheme s \<in> scheme ` set (parsers P)" by simp_all
  then show ?thesis by (simp add: set_schemes)
qed

subsection \<open>The code on concrete inputs\<close>

lemmas location_defs =
  parseLocation_def parsers_def extractScheme_def SplitN2_def example_parsers_def
  example_parse_def HasPrefix_def zero_location_def isPath_def ContainsRune_def backslash_def

lemma ex_local:
  "parseLocation example_parsers ''local:/tmp'' =
     (\<lparr>Scheme = ''local'', Config = Some (CfgLocal ''/tmp'')\<rparr>, None)"
  by (simp add: location_defs)

lemma ex_foobar:
  "parseLocation example_parsers ''foo:bar'' = (zero_location, Some (New ambiguous_msg))"
  by (simp add: location_defs)

section \<open>\<open>isPath\<close>\<close>

lemma lower_range:
  "(CHR ''a'' \<le> c \<and> c \<le> CHR ''z'') = (c \<in> set ''abcdefghijklmnopqrstuvwxyz'')"
proof -
  have a: "(CHR ''a'' \<le> c \<and> c \<le> CHR ''z'') = (of_char c \<in> {97..(122::nat)})"
    by (simp add: less_eq_char_def)
  have b: "{97..(122::nat)} = of_char ` set ''abcdefghijklmnopqrstuvwxyz''"
    by (rule set_eqI) (simp, arith)
  have c: "((of_char c :: nat) \<in> of_char ` set ''abcdefghijklmnopqrstuvwxyz'') =
           (c \<in> set ''abcdefghijklmnopqrstuvwxyz'')"
    by (rule inj_image_mem_iff [OF inj_of_char])
  show ?thesis
    by (simp only: a b c)
qed

lemma upper_range:
  "(CHR ''A'' \<le> c \<and> c \<le> CHR ''Z'') = (c \<in> set ''ABCDEFGHIJKLMNOPQRSTUVWXYZ'')"
proof -
  have a: "(CHR ''A'' \<le> c \<and> c \<le> CHR ''Z'') = (of_char c \<in> {65..(90::nat)})"
    by (simp add: less_eq_char_def)
  have b: "{65..(90::nat)} = of_char ` set ''ABCDEFGHIJKLMNOPQRSTUVWXYZ''"
    by (rule set_eqI) (simp, arith)
  have c: "((of_char c :: nat) \<in> of_char ` set ''ABCDEFGHIJKLMNOPQRSTUVWXYZ'') =
           (c \<in> set ''ABCDEFGHIJKLMNOPQRSTUVWXYZ'')"
    by (rule inj_image_mem_iff [OF inj_of_char])
  show ?thesis
    by (simp only: a b c)
qed

lemma HasPrefix_prefix: "HasPrefix s p = prefix p s"
  unfolding HasPrefix_def
  by (metis append_eq_conv_conj prefix_def append_take_drop_id)

lemma isPath_char:
  "isPath s \<longleftrightarrow>
     (prefix ''../'' s \<or> prefix (''..'' @ [backslash]) s \<or> prefix ''/'' s \<or> prefix [backslash] s \<or>
      (3 \<le> length s \<and> ascii_letter (s ! 0) \<and> s ! 1 = CHR '':'' \<and>
       (s ! 2 = CHR ''/'' \<or> s ! 2 = backslash)))"
  unfolding isPath_def HasPrefix_prefix Let_def ascii_letter_def lower_range upper_range
  by auto

text \<open>
  C5. \<open>isPath s\<close> is true exactly when \<open>s\<close> starts with \<open>../\<close>, with two dots and a
  backslash, with \<open>/\<close> or with a backslash, or \<open>s\<close> has at least three bytes, the first
  an ASCII letter, the second a colon and the third a slash or a backslash. In particular a string shorter than three bytes that
  starts with a letter and a colon, such as \<open>C:\<close>, is not a path.
\<close>

theorem isPath_iff:
  "(isPath s \<longleftrightarrow>
     (prefix ''../'' s \<or> prefix (''..'' @ [backslash]) s \<or> prefix ''/'' s \<or> prefix [backslash] s \<or>
      (3 \<le> length s \<and> ascii_letter (s ! 0) \<and> s ! 1 = CHR '':'' \<and>
       (s ! 2 = CHR ''/'' \<or> s ! 2 = backslash)))) \<and>
   (length s < 3 \<and> ascii_letter d \<and> prefix [d, CHR '':''] s \<longrightarrow> \<not> isPath s)"
proof
  show "isPath s \<longleftrightarrow>
     (prefix ''../'' s \<or> prefix (''..'' @ [backslash]) s \<or> prefix ''/'' s \<or> prefix [backslash] s \<or>
      (3 \<le> length s \<and> ascii_letter (s ! 0) \<and> s ! 1 = CHR '':'' \<and>
       (s ! 2 = CHR ''/'' \<or> s ! 2 = backslash)))"
    by (rule isPath_char)
  show "length s < 3 \<and> ascii_letter d \<and> prefix [d, CHR '':''] s \<longrightarrow> \<not> isPath s"
  proof
    assume h: "length s < 3 \<and> ascii_letter d \<and> prefix [d, CHR '':''] s"
    then obtain t where t: "s = [d, CHR '':''] @ t" by (auto simp: prefix_def)
    with h have s: "s = [d, CHR '':'']" by simp
    from h have "d \<noteq> CHR ''.''" "d \<noteq> CHR ''/''" "d \<noteq> backslash"
      by (auto simp: ascii_letter_def backslash_def)
    then show "\<not> isPath s"
      unfolding s isPath_char by simp
  qed
qed

theorem isPath_iff_witness:
  "\<not> isPath ''C:'' \<and> isPath ''C:/x'' \<and> isPath ''../x'' \<and> isPath ''/x'' \<and> \<not> isPath ''foo:bar''"
  using isPath_iff [of "''C:''" "CHR ''C''"] isPath_iff [of "''C:/x''"] isPath_iff [of "''../x''"]
    isPath_iff [of "''/x''"] isPath_iff [of "''foo:bar''"]
  by (simp add: ascii_letter_def backslash_def)

section \<open>\<open>parseLocation\<close>\<close>

text \<open>
  C6. When the scheme extracted from \<open>s\<close> is the scheme of no entry of the parser table,
  \<open>s\<close> is not a path and \<open>s\<close> contains a colon, \<open>parseLocation\<close> returns the zero location
  and the error that tells the user to add a \<open>local:\<close> prefix, whatever the local
  parser would do with \<open>s\<close>.
\<close>

theorem parseLocation_ambiguous:
  assumes "extractScheme s \<notin> scheme ` set (parsers P)"
    and "\<not> isPath s"
    and "ContainsRune s (CHR '':'')"
  shows "parseLocation P s = (zero_location, Some (New ambiguous_msg)) \<and>
     zero_location = \<lparr>Scheme = [], Config = None\<rparr> \<and>
     sublist ''you need to add a `local:` prefix'' ambiguous_msg"
proof -
  have m: "sublist ''you need to add a `local:` prefix'' ambiguous_msg"
    unfolding ambiguous_msg_def by code_simp
  from assms
  have "parseLocation_loop (parsers P) (zero_location\<lparr>Scheme := extractScheme s\<rparr>)
          (extractScheme s) s = None"
    by (simp add: loop_None)
  with assms m show ?thesis by (simp add: parseLocation_def Let_def zero_location_def)
qed

theorem parseLocation_ambiguous_witness:
  "extractScheme ''foo:bar'' \<notin> scheme ` set (parsers example_parsers) \<and>
   \<not> isPath ''foo:bar'' \<and> ContainsRune ''foo:bar'' (CHR '':'') \<and>
   parseLocation example_parsers ''foo:bar'' = (zero_location, Some (New ambiguous_msg))"
proof -
  have h1: "extractScheme ''foo:bar'' \<notin> scheme ` set (parsers example_parsers)"
    by (simp add: location_defs)
  have h2: "\<not> isPath ''foo:bar''" by (simp add: location_defs)
  have h3: "ContainsRune ''foo:bar'' (CHR '':'')" by (simp add: location_defs)
  from parseLocation_ambiguous [OF h1 h2 h3] h1 h2 h3 show ?thesis by simp
qed

text \<open>
  C9. A location that \<open>parseLocation\<close> returns without an error has one of the nine
  registered scheme names, so the \<open>switch\<close> of \<open>parseConfig\<close> and of \<open>Open\<close> on its scheme
  never selects the default arm.
\<close>

theorem parseLocation_scheme_registered:
  "parseLocation P s = (loc, None) \<Longrightarrow>
     Scheme loc \<in> set registered_schemes \<and> switch_Scheme (Scheme loc) \<noteq> ArmDefault"
  using parseLocation_ok_scheme switch_registered by blast

theorem parseLocation_scheme_registered_witness:
  "parseLocation example_parsers ''local:/tmp'' =
     (\<lparr>Scheme = ''local'', Config = Some (CfgLocal ''/tmp'')\<rparr>, None) \<and>
   ''local'' \<in> set registered_schemes \<and> switch_Scheme ''local'' \<noteq> ArmDefault"
  using parseLocation_scheme_registered [OF ex_local] ex_local by simp

text \<open>
  C10. Whenever \<open>parseLocation\<close> returns an error, from a backend parser, from the
  ambiguity check or from the local fallback parser, the location returned with it is
  the zero location: empty scheme and nil config, also when the parser handed back a
  config together with its error.
\<close>

theorem parseLocation_error_zero:
  "parseLocation P s = (u, Some e) \<Longrightarrow> u = zero_location \<and> Scheme u = [] \<and> Config u = None"
  unfolding parseLocation_def Let_def
  by (auto split: option.splits prod.splits if_splits dest: loop_error simp: zero_location_def)

theorem parseLocation_error_zero_witness:
  "parseLocation example_parsers ''foo:bar'' = (zero_location, Some (New ambiguous_msg)) \<and>
   Scheme zero_location = [] \<and> Config zero_location = None"
  using parseLocation_error_zero [OF ex_foobar] ex_foobar by simp

section \<open>\<open>parseConfig\<close>\<close>



lemma parseConfig_s3:
  assumes "Scheme loc = ''s3''"
  shows "parseConfig F q env loc opts =
    (case Config loc of
       Some (CfgS3 c) \<Rightarrow>
         if fallback (KeyID c) env ''AWS_ACCESS_KEY_ID'' = [] \<and>
            fallback (Secret c) env ''AWS_SECRET_ACCESS_KEY'' \<noteq> []
         then Return (None, Some (Fatalf
                ''unable to open S3 backend: Key ID ($AWS_ACCESS_KEY_ID) is empty''))
         else if fallback (KeyID c) env ''AWS_ACCESS_KEY_ID'' \<noteq> [] \<and>
            fallback (Secret c) env ''AWS_SECRET_ACCESS_KEY'' = []
         then Return (None, Some (Fatalf
                ''unable to open S3 backend: Secret ($AWS_SECRET_ACCESS_KEY) is empty''))
         else return_applied CfgS3 (Apply_s3 F (Extract F opts ''s3'') ''s3''
                (c\<lparr>KeyID := fallback (KeyID c) env ''AWS_ACCESS_KEY_ID'',
                   Secret := fallback (Secret c) env ''AWS_SECRET_ACCESS_KEY'',
                   Region := fallback (Region c) env ''AWS_DEFAULT_REGION''\<rparr>))
     | _ \<Rightarrow> Panic)"
  using assms
  by (simp add: parseConfig_def switch_Scheme_def fallback_def Let_def
      split: option.splits config.splits)



lemma parseConfig_b2:
  assumes "Scheme loc = ''b2''"
  shows "parseConfig F q env loc opts =
    (case Config loc of
       Some (CfgB2 c) \<Rightarrow>
         if fallback (AccountID c) env ''B2_ACCOUNT_ID'' = []
         then Return (None, Some (Fatalf
                ''unable to open B2 backend: Account ID ($B2_ACCOUNT_ID) is empty''))
         else if fallback (Key c) env ''B2_ACCOUNT_KEY'' = []
         then Return (None, Some (Fatalf
                ''unable to open B2 backend: Key ($B2_ACCOUNT_KEY) is empty''))
         else return_applied CfgB2 (Apply_b2 F (Extract F opts ''b2'') ''b2''
                (c\<lparr>AccountID := fallback (AccountID c) env ''B2_ACCOUNT_ID'',
                   Key := fallback (Key c) env ''B2_ACCOUNT_KEY''\<rparr>))
     | _ \<Rightarrow> Panic)"
  using assms
  by (simp add: parseConfig_def switch_Scheme_def fallback_def Let_def
      split: option.splits config.splits)













text \<open>
  C7. For S3, when after the environment fallback the key id is empty and the secret is
  not, \<open>parseConfig\<close> fails with a fatal error that names \<open>$AWS_ACCESS_KEY_ID\<close>; when the
  secret is empty and the key id is not, with one that names \<open>$AWS_SECRET_ACCESS_KEY\<close>;
  when both are empty it goes on to apply the options and returns what that gives. For
  B2 an empty account id after fallback is a fatal error naming \<open>$B2_ACCOUNT_ID\<close>, and an
  empty key one naming \<open>$B2_ACCOUNT_KEY\<close>.
\<close>

theorem parseConfig_missing_credentials:
  "(fallback (KeyID s) env ''AWS_ACCESS_KEY_ID'' = [] \<and>
    fallback (Secret s) env ''AWS_SECRET_ACCESS_KEY'' \<noteq> [] \<longrightarrow>
      parseConfig F q env \<lparr>Scheme = ''s3'', Config = Some (CfgS3 s)\<rparr> opts =
        Return (None, Some (Fatalf
          ''unable to open S3 backend: Key ID ($AWS_ACCESS_KEY_ID) is empty''))) \<and>
   (fallback (KeyID s) env ''AWS_ACCESS_KEY_ID'' \<noteq> [] \<and>
    fallback (Secret s) env ''AWS_SECRET_ACCESS_KEY'' = [] \<longrightarrow>
      parseConfig F q env \<lparr>Scheme = ''s3'', Config = Some (CfgS3 s)\<rparr> opts =
        Return (None, Some (Fatalf
          ''unable to open S3 backend: Secret ($AWS_SECRET_ACCESS_KEY) is empty''))) \<and>
   (fallback (KeyID s) env ''AWS_ACCESS_KEY_ID'' = [] \<and>
    fallback (Secret s) env ''AWS_SECRET_ACCESS_KEY'' = [] \<longrightarrow>
      parseConfig F q env \<lparr>Scheme = ''s3'', Config = Some (CfgS3 s)\<rparr> opts =
        (case Apply_s3 F (Extract F opts ''s3'') ''s3''
                (s\<lparr>KeyID := [], Secret := [],
                   Region := fallback (Region s) env ''AWS_DEFAULT_REGION''\<rparr>) of
           (c', Some err) \<Rightarrow> Return (None, Some err)
         | (c', None) \<Rightarrow> Return (Some (CfgS3 c'), None))) \<and>
   (fallback (AccountID b) env ''B2_ACCOUNT_ID'' = [] \<longrightarrow>
      parseConfig F q env \<lparr>Scheme = ''b2'', Config = Some (CfgB2 b)\<rparr> opts =
        Return (None, Some (Fatalf
          ''unable to open B2 backend: Account ID ($B2_ACCOUNT_ID) is empty''))) \<and>
   (fallback (AccountID b) env ''B2_ACCOUNT_ID'' \<noteq> [] \<and>
    fallback (Key b) env ''B2_ACCOUNT_KEY'' = [] \<longrightarrow>
      parseConfig F q env \<lparr>Scheme = ''b2'', Config = Some (CfgB2 b)\<rparr> opts =
        Return (None, Some (Fatalf
          ''unable to open B2 backend: Key ($B2_ACCOUNT_KEY) is empty''))) \<and>
   sublist ''$AWS_ACCESS_KEY_ID''
     ''unable to open S3 backend: Key ID ($AWS_ACCESS_KEY_ID) is empty'' \<and>
   sublist ''$AWS_SECRET_ACCESS_KEY''
     ''unable to open S3 backend: Secret ($AWS_SECRET_ACCESS_KEY) is empty'' \<and>
   sublist ''$B2_ACCOUNT_ID''
     ''unable to open B2 backend: Account ID ($B2_ACCOUNT_ID) is empty'' \<and>
   sublist ''$B2_ACCOUNT_KEY''
     ''unable to open B2 backend: Key ($B2_ACCOUNT_KEY) is empty''"
proof -
  have n1: "sublist ''$AWS_ACCESS_KEY_ID''
     ''unable to open S3 backend: Key ID ($AWS_ACCESS_KEY_ID) is empty''" by code_simp
  have n2: "sublist ''$AWS_SECRET_ACCESS_KEY''
     ''unable to open S3 backend: Secret ($AWS_SECRET_ACCESS_KEY) is empty''" by code_simp
  have n3: "sublist ''$B2_ACCOUNT_ID''
     ''unable to open B2 backend: Account ID ($B2_ACCOUNT_ID) is empty''" by code_simp
  have n4: "sublist ''$B2_ACCOUNT_KEY''
     ''unable to open B2 backend: Key ($B2_ACCOUNT_KEY) is empty''" by code_simp
  show ?thesis
    by (simp add: n1 n2 n3 n4 parseConfig_s3 parseConfig_b2 return_applied_def
        split: prod.splits option.splits)
qed

theorem parseConfig_missing_credentials_witness:
  "parseConfig example_config_fns example_q [''AWS_SECRET_ACCESS_KEY'' \<mapsto> ''envsecret'']
     \<lparr>Scheme = ''s3'', Config = Some (CfgS3 \<lparr>KeyID = [], Secret = [], Region = []\<rparr>)\<rparr> [] =
     Return (None, Some (Fatalf
       ''unable to open S3 backend: Key ID ($AWS_ACCESS_KEY_ID) is empty'')) \<and>
   parseConfig example_config_fns example_q [''AWS_ACCESS_KEY_ID'' \<mapsto> ''envkey'']
     \<lparr>Scheme = ''s3'', Config = Some (CfgS3 \<lparr>KeyID = [], Secret = [], Region = []\<rparr>)\<rparr> [] =
     Return (None, Some (Fatalf
       ''unable to open S3 backend: Secret ($AWS_SECRET_ACCESS_KEY) is empty'')) \<and>
   parseConfig example_config_fns example_q Map.empty
     \<lparr>Scheme = ''s3'', Config = Some (CfgS3 \<lparr>KeyID = [], Secret = [], Region = []\<rparr>)\<rparr> [] =
     Return (Some (CfgS3 \<lparr>KeyID = [], Secret = [], Region = []\<rparr>), None) \<and>
   parseConfig example_config_fns example_q [''B2_ACCOUNT_KEY'' \<mapsto> ''envb2key'']
     \<lparr>Scheme = ''b2'', Config = Some (CfgB2 \<lparr>AccountID = [], Key = []\<rparr>)\<rparr> [] =
     Return (None, Some (Fatalf
       ''unable to open B2 backend: Account ID ($B2_ACCOUNT_ID) is empty'')) \<and>
   parseConfig example_config_fns example_q [''B2_ACCOUNT_ID'' \<mapsto> ''envid'']
     \<lparr>Scheme = ''b2'', Config = Some (CfgB2 \<lparr>AccountID = [], Key = []\<rparr>)\<rparr> [] =
     Return (None, Some (Fatalf
       ''unable to open B2 backend: Key ($B2_ACCOUNT_KEY) is empty''))"
  using
    parseConfig_missing_credentials [of "\<lparr>KeyID = [], Secret = [], Region = []\<rparr>"
      "[''AWS_SECRET_ACCESS_KEY'' \<mapsto> ''envsecret'']" example_config_fns example_q "[]"
      "\<lparr>AccountID = [], Key = []\<rparr>"]
    parseConfig_missing_credentials [of "\<lparr>KeyID = [], Secret = [], Region = []\<rparr>"
      "[''AWS_ACCESS_KEY_ID'' \<mapsto> ''envkey'']" example_config_fns example_q "[]"
      "\<lparr>AccountID = [], Key = []\<rparr>"]
    parseConfig_missing_credentials [of "\<lparr>KeyID = [], Secret = [], Region = []\<rparr>"
      "Map.empty" example_config_fns example_q "[]"
      "\<lparr>AccountID = [], Key = []\<rparr>"]
    parseConfig_missing_credentials [of "\<lparr>KeyID = [], Secret = [], Region = []\<rparr>"
      "[''B2_ACCOUNT_KEY'' \<mapsto> ''envb2key'']" example_config_fns example_q "[]"
      "\<lparr>AccountID = [], Key = []\<rparr>"]
    parseConfig_missing_credentials [of "\<lparr>KeyID = [], Secret = [], Region = []\<rparr>"
      "[''B2_ACCOUNT_ID'' \<mapsto> ''envid'']" example_config_fns example_q "[]"
      "\<lparr>AccountID = [], Key = []\<rparr>"]
  by (simp add: fallback_def Getenv_def example_config_fns_def)










section \<open>\<open>parseLocation\<close> on strings without a colon\<close>

text \<open>
  For a string without a colon that is not itself a registered scheme name, the table has
  no entry, the ambiguity check does not apply, and the local parser decides.
\<close>

lemma parseLocation_colon_free:
  assumes "\<not> ContainsRune s (CHR '':'')" and "s \<notin> set registered_schemes"
  shows "parseLocation P s =
    (case local_ParseConfig P (''local:'' @ s) of
       (cfg, Some e) \<Rightarrow> (zero_location, Some e)
     | (cfg, None) \<Rightarrow> (\<lparr>Scheme = ''local'', Config = cfg\<rparr>, None))"
proof -
  from assms(1) have "extractScheme s = s"
    by (simp add: extractScheme_def SplitN2_def ContainsRune_def)
  with assms(2) have "parseLocation_loop (parsers P) (zero_location\<lparr>Scheme := extractScheme s\<rparr>)
          (extractScheme s) s = None"
    by (simp add: loop_None set_schemes)
  with assms(1) show ?thesis
    by (simp add: parseLocation_def Let_def zero_location_def split: prod.splits option.splits)
qed

text \<open>
  C2. A string without a colon that is a registered scheme name does match a table entry:
  for \<open>s3\<close> the loop calls the S3 parser on \<open>s3\<close> itself and returns its error or the
  scheme \<open>s3\<close>; the local parser is not consulted. With parsers that ask for their prefix,
  \<open>parseLocation\<close> fails on \<open>s3\<close> although the local parser accepts \<open>local:s3\<close>.
\<close>

theorem parseLocation_bare_scheme_name:
  "\<not> ContainsRune ''s3'' (CHR '':'') \<and>
   extractScheme ''s3'' \<in> scheme ` set (parsers P) \<and>
   parseLocation P ''s3'' =
     (case s3_ParseConfig P ''s3'' of
        (cfg, Some e) \<Rightarrow> (zero_location, Some e)
      | (cfg, None) \<Rightarrow> (\<lparr>Scheme = ''s3'', Config = cfg\<rparr>, None)) \<and>
   parseLocation example_parsers ''s3'' = (zero_location, Some (New ''invalid format'')) \<and>
   local_ParseConfig example_parsers (''local:'' @ ''s3'') = (Some (CfgLocal ''s3''), None)"
  by (simp add: location_defs split: prod.splits option.splits)

section \<open>\<open>Open\<close>\<close>















subsection \<open>The code on concrete inputs\<close>



























end
